theory Spec2Isabelle
  imports Complex_Main "HOL-Library.Multiset"
begin

section \<open>Strings and regular-expression searches of the analyzer\<close>

text \<open>
  Query texts are Python strings. They are modelled as \<open>string\<close>, one \<open>char\<close> per code
  point, so the model covers the texts whose code points are below 256.

  \<open>str.lower()\<close> on that range maps \<open>A\<close>..\<open>Z\<close> to \<open>a\<close>..\<open>z\<close> and the Latin-1 capitals
  (code points 192..222 except the multiplication sign 215) to the code point 32 above.
\<close>

definition lower_char :: "char \<Rightarrow> char" where
  "lower_char c =
     (let n = of_char c :: nat in
      if (65 \<le> n \<and> n \<le> 90) \<or> (192 \<le> n \<and> n \<le> 222 \<and> n \<noteq> 215)
      then char_of (n + 32) else c)"

definition lower :: "string \<Rightarrow> string" where
  "lower s = map lower_char s"

text \<open>\<open>startswith p s\<close>: the text \<open>s\<close> begins with the literal \<open>p\<close>.\<close>

fun startswith :: "string \<Rightarrow> string \<Rightarrow> bool" where
  "startswith [] s = True"
| "startswith (p # ps) [] = False"
| "startswith (p # ps) (c # cs) = (p = c \<and> startswith ps cs)"

text \<open>\<open>contains p s\<close>: the literal \<open>p\<close> occurs somewhere in \<open>s\<close>.\<close>

fun contains :: "string \<Rightarrow> string \<Rightarrow> bool" where
  "contains p [] = startswith p []"
| "contains p (c # cs) = (startswith p (c # cs) \<or> contains p cs)"

text \<open>
  Every pattern of \<open>task_patterns\<close>, and the pattern \<open>json|xml|yaml|csv\<close>, is an
  alternation of literals (\<open>c\+\+\<close> is the literal \<open>c++\<close>). Such a pattern is kept as the
  list of its alternatives, and \<open>re.search\<close> finds a match exactly when one of the
  alternatives occurs in the text.
\<close>

type_synonym pattern = "string list"

definition re_search :: "pattern \<Rightarrow> string \<Rightarrow> bool" where
  "re_search p s = list_ex (\<lambda>alt. contains alt s) p"

text \<open>
  The pattern \<open>\d+[\+\-\*/]\d+\<close>: a run of digits, one operator, a run of digits. A match
  exists exactly when some operator character stands between two digits. Below code point
  256 the class \<open>\d\<close> is \<open>0\<close>..\<open>9\<close>.
\<close>

definition is_digit :: "char \<Rightarrow> bool" where
  "is_digit c = (let n = of_char c :: nat in 48 \<le> n \<and> n \<le> 57)"

definition is_operator :: "char \<Rightarrow> bool" where
  "is_operator c = (c = CHR ''+'' \<or> c = CHR ''-'' \<or> c = CHR ''*'' \<or> c = CHR ''/'')"

fun search_numeric_operator :: "string \<Rightarrow> bool" where
  "search_numeric_operator (a # b # c # rest) =
     ((is_digit a \<and> is_operator b \<and> is_digit c) \<or> search_numeric_operator (b # c # rest))"
| "search_numeric_operator _ = False"

section \<open>Query analyzer (analyzer.py)\<close>

record QueryComplexity =
  token_count :: int
  vocabulary_complexity :: real
  task_type :: string
  estimated_output_tokens :: int
  required_capabilities :: "string list"
  complexity_score :: real

text \<open>
  \<open>self.task_patterns\<close>. A Python dict iterates in insertion order, so the table is an
  association list in the order of the source.
\<close>

definition task_patterns :: "(string \<times> pattern list) list" where
  "task_patterns =
    [(''simple_qa'',
        [[''what is'', ''what are'', ''who is'', ''who are'', ''when is'', ''when was'', ''where is''],
         [''define'', ''definition of'', ''meaning of''],
         [''yes or no'', ''true or false'']]),
     (''summarization'',
        [[''summarize'', ''summary of'', ''tldr'', ''key points''],
         [''main idea'', ''brief overview'', ''condensed version'']]),
     (''code'',
        [[[CHR 0x60, CHR 0x60, CHR 0x60], ''code'', ''function'', ''implement'', ''algorithm'',
          ''debug'', ''fix''],
         [''python'', ''javascript'', ''java'', ''c++'', ''sql'', ''programming'']]),
     (''analysis'',
        [[''analyze'', ''analysis'', ''compare'', ''contrast'', ''evaluate''],
         [''pros and cons'', ''advantages'', ''disadvantages'', ''implications'']]),
     (''creative'',
        [[''write a story'', ''poem'', ''creative'', ''imagine'', ''fictional''],
         [''brainstorm'', ''ideas for'', ''suggestions for'']]),
     (''math'',
        [[''calculate'', ''solve'', ''equation'', ''formula'', ''mathematical''],
         [''derivative'', ''integral'', ''probability'', ''statistics'']]),
     (''reasoning'',
        [[''explain why'', ''how does'', ''logical'', ''reasoning'', ''think through''],
         [''step by step'', ''walkthrough'', ''systematic'']])]"

text \<open>The inner loop of \<open>_detect_task_type\<close>: does one of the patterns match?\<close>

fun any_pattern_matches :: "pattern list \<Rightarrow> string \<Rightarrow> bool" where
  "any_pattern_matches [] s = False"
| "any_pattern_matches (p # ps) s = (if re_search p s then True else any_pattern_matches ps s)"

text \<open>The outer loop: the first category with a matching pattern returns.\<close>

fun detect_loop :: "(string \<times> pattern list) list \<Rightarrow> string \<Rightarrow> string" where
  "detect_loop [] s = ''general''"
| "detect_loop ((t, ps) # rest) s = (if any_pattern_matches ps s then t else detect_loop rest s)"

definition detect_task_type :: "string \<Rightarrow> string" where
  "detect_task_type query = detect_loop task_patterns (lower query)"

text \<open>\<open>d.get(k, default)\<close> on a literal dict.\<close>

fun dict_get :: "(string \<times> 'v) list \<Rightarrow> string \<Rightarrow> 'v \<Rightarrow> 'v" where
  "dict_get [] k d = d"
| "dict_get ((k', v) # rest) k d = (if k = k' then v else dict_get rest k d)"

definition multipliers :: "(string \<times> real) list" where
  "multipliers =
    [(''simple_qa'', 5 / 10), (''summarization'', 3 / 10), (''code'', 25 / 10),
     (''analysis'', 2), (''creative'', 3), (''math'', 15 / 10), (''reasoning'', 2),
     (''general'', 1)]"

text \<open>
  \<open>int(x)\<close> truncates towards zero. The product is taken in exact arithmetic here; the
  source takes it in binary floating point.
\<close>

definition py_int :: "real \<Rightarrow> int" where
  "py_int x = (if 0 \<le> x then \<lfloor>x\<rfloor> else \<lceil>x\<rceil>)"

definition estimate_output_tokens :: "string \<Rightarrow> int \<Rightarrow> int" where
  "estimate_output_tokens t input_tokens =
     py_int (of_int input_tokens * dict_get multipliers t 1)"

definition detect_required_capabilities :: "string \<Rightarrow> string \<Rightarrow> string list" where
  "detect_required_capabilities query t =
     (if t = ''code'' then [''code_generation''] else []) @
     (if t = ''math'' \<or> search_numeric_operator query then [''mathematical_reasoning''] else []) @
     (if t \<in> set [''analysis'', ''reasoning''] then [''complex_reasoning''] else []) @
     (if length query > 1000 then [''long_context''] else []) @
     (if re_search [''json'', ''xml'', ''yaml'', ''csv''] (lower query)
      then [''structured_output''] else [])"

definition task_scores :: "(string \<times> real) list" where
  "task_scores =
    [(''simple_qa'', 1 / 10), (''summarization'', 3 / 10), (''code'', 8 / 10),
     (''analysis'', 7 / 10), (''creative'', 6 / 10), (''math'', 8 / 10),
     (''reasoning'', 9 / 10), (''general'', 5 / 10)]"

definition calculate_complexity_score :: "int \<Rightarrow> real \<Rightarrow> string \<Rightarrow> string list \<Rightarrow> real" where
  "calculate_complexity_score tc vocab_complexity t caps =
     (let token_score = min (of_int tc / 500) 1 * (2 / 10);
          vocab_score = vocab_complexity * (2 / 10);
          task_score = dict_get task_scores t (5 / 10) * (4 / 10);
          capability_score = min (of_nat (length caps) * (1 / 10)) (2 / 10)
      in token_score + vocab_score + task_score + capability_score)"

text \<open>
  \<open>analyze\<close>. The tokenizer (\<open>tiktoken\<close>, \<open>cl100k_base\<close>) is a library outside the
  repository: it is the parameter \<open>enc\<close>, any function from texts to lists of token ids.
\<close>

definition analyze :: "(string \<Rightarrow> int list) \<Rightarrow> string \<Rightarrow> QueryComplexity" where
  "analyze enc query =
     (let tokens = enc query;
          tc = int (length tokens);
          unique_tokens = int (length (remdups tokens));
          vc = (if tc > 0 then of_int unique_tokens / of_int tc else 0);
          t = detect_task_type query;
          estimated_output = estimate_output_tokens t tc;
          caps = detect_required_capabilities query t;
          score = calculate_complexity_score tc vc t caps
      in \<lparr> token_count = tc, vocabulary_complexity = vc, task_type = t,
           estimated_output_tokens = estimated_output, required_capabilities = caps,
           complexity_score = score \<rparr>)"

section \<open>Model catalog, routing rules and selection (selector.py, rules.py)\<close>

datatype ModelProvider = OPENAI | ANTHROPIC | GOOGLE | MISTRAL

text \<open>\<open>ModelProvider.value\<close>\<close>

fun provider_value :: "ModelProvider \<Rightarrow> string" where
  "provider_value OPENAI = ''openai''"
| "provider_value ANTHROPIC = ''anthropic''"
| "provider_value GOOGLE = ''google''"
| "provider_value MISTRAL = ''mistral''"

record Model =
  name :: string
  provider :: ModelProvider
  cost_per_1k_input :: real
  cost_per_1k_output :: real
  max_tokens :: int
  speed_score :: real
  quality_score :: real
  capabilities :: "string list"

definition gpt_3_5_turbo :: Model where
  "gpt_3_5_turbo = \<lparr> name = ''gpt-3.5-turbo'', provider = OPENAI,
     cost_per_1k_input = 5 / 10000, cost_per_1k_output = 15 / 10000, max_tokens = 4096,
     speed_score = 9, quality_score = 7,
     capabilities = [''general'', ''code_generation'', ''summarization''] \<rparr>"

definition gpt_4o_mini :: Model where
  "gpt_4o_mini = \<lparr> name = ''gpt-4o-mini'', provider = OPENAI,
     cost_per_1k_input = 15 / 100000, cost_per_1k_output = 6 / 10000, max_tokens = 128000,
     speed_score = 9, quality_score = 9,
     capabilities = [''general'', ''code_generation'', ''summarization'', ''reasoning''] \<rparr>"

definition gpt_4 :: Model where
  "gpt_4 = \<lparr> name = ''gpt-4'', provider = OPENAI,
     cost_per_1k_input = 3 / 100, cost_per_1k_output = 6 / 100, max_tokens = 8192,
     speed_score = 6, quality_score = 10, capabilities = [''all''] \<rparr>"

definition claude_3_haiku :: Model where
  "claude_3_haiku = \<lparr> name = ''claude-3-haiku'', provider = ANTHROPIC,
     cost_per_1k_input = 25 / 100000, cost_per_1k_output = 125 / 100000, max_tokens = 200000,
     speed_score = 10, quality_score = 75 / 10,
     capabilities = [''general'', ''summarization'', ''long_context''] \<rparr>"

definition claude_3_opus :: Model where
  "claude_3_opus = \<lparr> name = ''claude-3-opus'', provider = ANTHROPIC,
     cost_per_1k_input = 15 / 1000, cost_per_1k_output = 75 / 1000, max_tokens = 200000,
     speed_score = 5, quality_score = 10, capabilities = [''all''] \<rparr>"

definition mistral_7b :: Model where
  "mistral_7b = \<lparr> name = ''mistral-7b'', provider = MISTRAL,
     cost_per_1k_input = 2 / 10000, cost_per_1k_output = 2 / 10000, max_tokens = 8192,
     speed_score = 8, quality_score = 6,
     capabilities = [''general'', ''code_generation''] \<rparr>"

definition gemini_pro :: Model where
  "gemini_pro = \<lparr> name = ''gemini-pro'', provider = GOOGLE,
     cost_per_1k_input = 25 / 100000, cost_per_1k_output = 5 / 10000, max_tokens = 32000,
     speed_score = 8, quality_score = 8,
     capabilities = [''general'', ''code_generation'', ''mathematical_reasoning''] \<rparr>"

text \<open>\<open>_initialize_models\<close>: the dict literal, and \<open>self.models\<close> as a lookup.\<close>

definition initialize_models :: "(string \<times> Model) list" where
  "initialize_models =
    [(''gpt-3.5-turbo'', gpt_3_5_turbo), (''gpt-4o-mini'', gpt_4o_mini), (''gpt-4'', gpt_4),
     (''claude-3-haiku'', claude_3_haiku), (''claude-3-opus'', claude_3_opus),
     (''mistral-7b'', mistral_7b), (''gemini-pro'', gemini_pro)]"

definition models :: "string \<Rightarrow> Model option" where
  "models = map_of initialize_models"

record RoutingRule =
  rule_name :: string
  condition :: "QueryComplexity \<Rightarrow> bool"
  rule_model :: string
  priority :: int

text \<open>
  \<open>sorted(custom_rules, key=lambda r: r.priority, reverse=True)\<close>: Python's sort is
  stable, also with \<open>reverse=True\<close>, so rules of equal priority keep the order in which they
  stand in the list. That is the stable insertion sort on the negated priority.
\<close>

definition sorted_by_priority :: "RoutingRule list \<Rightarrow> RoutingRule list" where
  "sorted_by_priority rules = sort_key (\<lambda>r. - priority r) rules"

text \<open>
  The loop over the sorted rules: a rule whose condition holds and whose model is in the
  catalog returns; every other rule is passed over.
\<close>

fun apply_rules :: "RoutingRule list \<Rightarrow> QueryComplexity \<Rightarrow> Model option" where
  "apply_rules [] c = None"
| "apply_rules (r # rs) c =
     (if condition r c
      then (case models (rule_model r) of Some m \<Rightarrow> Some m | None \<Rightarrow> apply_rules rs c)
      else apply_rules rs c)"

definition select_cost_optimized :: "QueryComplexity \<Rightarrow> Model" where
  "select_cost_optimized c =
     (if complexity_score c < 3 / 10 then mistral_7b
      else if complexity_score c < 5 / 10 then claude_3_haiku
      else if complexity_score c < 7 / 10 then gpt_3_5_turbo
      else if complexity_score c < 85 / 100 then gemini_pro
      else gpt_4)"

definition select_quality_first :: "QueryComplexity \<Rightarrow> Model" where
  "select_quality_first c =
     (if complexity_score c < 2 / 10 then gpt_3_5_turbo
      else if complexity_score c < 6 / 10 then gemini_pro
      else gpt_4)"

definition select_balanced :: "QueryComplexity \<Rightarrow> Model" where
  "select_balanced c =
     (if ''code_generation'' \<in> set (required_capabilities c)
      then (if complexity_score c > 7 / 10 then gpt_4 else gpt_3_5_turbo)
      else if ''long_context'' \<in> set (required_capabilities c) then claude_3_haiku
      else if ''mathematical_reasoning'' \<in> set (required_capabilities c)
      then (if complexity_score c > 6 / 10 then gpt_4 else gemini_pro)
      else if complexity_score c < 4 / 10 then claude_3_haiku
      else if complexity_score c < 7 / 10 then gpt_3_5_turbo
      else gpt_4)"

definition select_model :: "QueryComplexity \<Rightarrow> string \<Rightarrow> RoutingRule list \<Rightarrow> Model" where
  "select_model c strategy custom_rules =
     (case (if custom_rules \<noteq> [] then apply_rules (sorted_by_priority custom_rules) c else None) of
        Some m \<Rightarrow> m
      | None \<Rightarrow>
          if strategy = ''cost_optimized'' then select_cost_optimized c
          else if strategy = ''quality_first'' then select_quality_first c
          else select_balanced c)"

section \<open>Cost tracker (tracker.py)\<close>

text \<open>
  A naive \<open>datetime\<close> is modelled as its count of microseconds from a fixed midnight, so
  \<open>.date()\<close> is the whole-day part and \<open>timedelta(days=n)\<close> is \<open>n\<close> days of microseconds.
\<close>

type_synonym datetime = int

definition microseconds_per_day :: int where
  "microseconds_per_day = 86400000000"

definition date_of :: "datetime \<Rightarrow> int" where
  "date_of t = t div microseconds_per_day"


record request_data =
  timestamp :: datetime
  req_model :: string
  req_provider :: string
  req_input_tokens :: int
  req_output_tokens :: int
  req_cost :: real
  req_savings :: real
  req_latency :: real

record CostTracker =
  requests :: "request_data list"
  daily_costs :: "int \<Rightarrow> real option"
  model_usage :: "string \<Rightarrow> int option"
  tracker_total_savings :: real

definition new_tracker :: CostTracker where
  "new_tracker = \<lparr> requests = [], daily_costs = Map.empty, model_usage = Map.empty,
     tracker_total_savings = 0 \<rparr>"

text \<open>
  \<open>track_request\<close>. The optional \<open>timestamp\<close> argument defaults to \<open>datetime.now()\<close>,
  the parameter \<open>now\<close>. A \<open>defaultdict\<close> reads a missing key as zero.
\<close>

definition track_request ::
  "CostTracker \<Rightarrow> datetime \<Rightarrow> string \<Rightarrow> string \<Rightarrow> int \<Rightarrow> int \<Rightarrow> real \<Rightarrow> real \<Rightarrow> real \<Rightarrow>
     datetime option \<Rightarrow> CostTracker" where
  "track_request tr now m p input_tokens output_tokens cost savings latency ts_arg =
     (let ts = (case ts_arg of None \<Rightarrow> now | Some t \<Rightarrow> t);
          request = \<lparr> timestamp = ts, req_model = m, req_provider = p,
            req_input_tokens = input_tokens, req_output_tokens = output_tokens,
            req_cost = cost, req_savings = savings, req_latency = latency \<rparr>
      in tr \<lparr> requests := requests tr @ [request],
              daily_costs := (daily_costs tr)
                (date_of ts \<mapsto> (case daily_costs tr (date_of ts) of None \<Rightarrow> 0 | Some x \<Rightarrow> x) + cost),
              model_usage := (model_usage tr)
                (m \<mapsto> (case model_usage tr m of None \<Rightarrow> 0 | Some k \<Rightarrow> k) + 1),
              tracker_total_savings := tracker_total_savings tr + savings \<rparr>)"







section \<open>Router (router.py)\<close>

record RouterResponse =
  content :: string
  model :: string
  response_provider :: string
  input_tokens :: int
  output_tokens :: int
  cost :: real
  savings :: real
  latency :: real
  response_quality_score :: "real option"

text \<open>A cache entry is the dict \<open>{"response": ..., "timestamp": ...}\<close>.\<close>

record CacheEntry =
  entry_response :: RouterResponse
  entry_timestamp :: real

record SmartRouter =
  strategy :: string
  daily_budget :: "real option"
  cache_ttl :: int
  enable_fallback :: bool
  tracker :: CostTracker
  api_keys :: "string \<Rightarrow> string option"
  custom_rules :: "RoutingRule list"
  cache :: "string \<Rightarrow> CacheEntry option"

text \<open>
  The failures of \<open>create\<close>: \<open>ValueError("Unknown model: ...")\<close>, the
  \<open>ValueError("... API key not provided")\<close> of a provider call,
  \<open>ValueError("Unsupported provider: ...")\<close>, and whatever a provider's client raises.
\<close>

datatype error =
    UnknownModel string
  | MissingCredential string
  | UnsupportedProvider string
  | ProviderInvocationFailure

type_synonym message = "string \<Rightarrow> string option"

text \<open>
  What lies outside the repository: the tokenizer, Python's \<open>hash\<close> on strings, and the
  provider clients. \<open>env_invoke p m msgs\<close> stands for the request a \<open>_call_*_api\<close> method
  sends through the client of provider \<open>p\<close> after its key check (conversion of the messages
  included); it returns the text or fails. The client libraries are taken to be installed,
  so that the \<open>import\<close> before the key check succeeds.
\<close>

record env =
  env_encode :: "string \<Rightarrow> int list"
  env_hash :: "string \<Rightarrow> int"
  env_invoke :: "ModelProvider \<Rightarrow> Model \<Rightarrow> message list \<Rightarrow> error + string"

text \<open>
  The clock readings of one call of \<open>create\<close>, in the order taken: \<open>time.time()\<close> at the
  cache check, before and after the provider call, \<open>datetime.now()\<close> in the tracker, and
  \<open>time.time()\<close> at the cache write.
\<close>

record clock =
  time_check :: real
  time_start :: real
  time_end :: real
  now_track :: datetime
  time_store :: real

definition add_rule :: "SmartRouter \<Rightarrow> RoutingRule \<Rightarrow> SmartRouter" where
  "add_rule st rule = st \<lparr> custom_rules := custom_rules st @ [rule] \<rparr>"

text \<open>\<open>_extract_query\<close>: the loop over \<open>reversed(messages)\<close>.\<close>

fun extract_loop :: "message list \<Rightarrow> string" where
  "extract_loop [] = []"
| "extract_loop (m # ms) =
     (if m ''role'' = Some ''user''
      then (case m ''content'' of None \<Rightarrow> [] | Some c \<Rightarrow> c)
      else extract_loop ms)"

definition extract_query :: "message list \<Rightarrow> string" where
  "extract_query messages = extract_loop (rev messages)"

text \<open>\<open>str\<close> of an integer: its decimal digits, with a minus sign when negative.\<close>

fun str_nat :: "nat \<Rightarrow> string" where
  "str_nat n = (if n < 10 then [char_of (48 + n)] else str_nat (n div 10) @ [char_of (48 + n mod 10)])"

declare str_nat.simps [simp del]

definition str_int :: "int \<Rightarrow> string" where
  "str_int i = (if i < 0 then CHR ''-'' # str_nat (nat (- i)) else str_nat (nat i))"

definition generate_cache_key :: "(string \<Rightarrow> int) \<Rightarrow> string \<Rightarrow> string" where
  "generate_cache_key h query = str_int (h query)"

definition calculate_cost :: "Model \<Rightarrow> int \<Rightarrow> int \<Rightarrow> real" where
  "calculate_cost m n_in n_out =
     (let input_cost = (of_int n_in / 1000) * cost_per_1k_input m;
          output_cost = (of_int n_out / 1000) * cost_per_1k_output m
      in input_cost + output_cost)"

text \<open>\<open>not self.api_keys[p]\<close>: the key is \<open>None\<close> or the empty string.\<close>

definition key_missing :: "string option \<Rightarrow> bool" where
  "key_missing k = (case k of None \<Rightarrow> True | Some s \<Rightarrow> s = [])"

definition call_openai_api :: "SmartRouter \<Rightarrow> env \<Rightarrow> Model \<Rightarrow> message list \<Rightarrow> error + string" where
  "call_openai_api st e m msgs =
     (if key_missing (api_keys st ''openai'') then Inl (MissingCredential ''openai'')
      else env_invoke e OPENAI m msgs)"

definition call_anthropic_api :: "SmartRouter \<Rightarrow> env \<Rightarrow> Model \<Rightarrow> message list \<Rightarrow> error + string" where
  "call_anthropic_api st e m msgs =
     (if key_missing (api_keys st ''anthropic'') then Inl (MissingCredential ''anthropic'')
      else env_invoke e ANTHROPIC m msgs)"

definition call_google_api :: "SmartRouter \<Rightarrow> env \<Rightarrow> Model \<Rightarrow> message list \<Rightarrow> error + string" where
  "call_google_api st e m msgs =
     (if key_missing (api_keys st ''google'') then Inl (MissingCredential ''google'')
      else env_invoke e GOOGLE m msgs)"

definition call_mistral_api :: "SmartRouter \<Rightarrow> env \<Rightarrow> Model \<Rightarrow> message list \<Rightarrow> error + string" where
  "call_mistral_api st e m msgs =
     (if key_missing (api_keys st ''mistral'') then Inl (MissingCredential ''mistral'')
      else env_invoke e MISTRAL m msgs)"

text \<open>The body of the \<open>try\<close> in \<open>_call_model_api\<close>: the primary invocation.\<close>

definition call_primary :: "SmartRouter \<Rightarrow> env \<Rightarrow> Model \<Rightarrow> message list \<Rightarrow> error + string" where
  "call_primary st e m msgs =
     (let v = provider_value (provider m) in
      if v = ''openai'' then call_openai_api st e m msgs
      else if v = ''anthropic'' then call_anthropic_api st e m msgs
      else if v = ''google'' then call_google_api st e m msgs
      else if v = ''mistral'' then call_mistral_api st e m msgs
      else Inl (UnsupportedProvider v))"

text \<open>
  \<open>_call_model_api\<close>: any exception of the primary invocation is caught; with fallback
  enabled the OpenAI call is made with \<open>gpt-3.5-turbo\<close>, otherwise the exception is raised
  again. Only the text is returned.
\<close>

definition call_model_api :: "SmartRouter \<Rightarrow> env \<Rightarrow> Model \<Rightarrow> message list \<Rightarrow> error + string" where
  "call_model_api st e m msgs =
     (case call_primary st e m msgs of
        Inr text \<Rightarrow> Inr text
      | Inl err \<Rightarrow>
          if enable_fallback st then call_openai_api st e gpt_3_5_turbo msgs else Inl err)"

text \<open>
  The cache steps of \<open>create\<close>. The lookup is a hit when the key is present and the entry
  is younger than \<open>cache_ttl\<close>; it changes nothing. The write stores the response with the
  time of the write.
\<close>

definition cache_get :: "SmartRouter \<Rightarrow> string \<Rightarrow> real \<Rightarrow> RouterResponse option" where
  "cache_get st cache_key now =
     (case cache st cache_key of
        None \<Rightarrow> None
      | Some cached \<Rightarrow>
          if now - entry_timestamp cached < of_int (cache_ttl st)
          then Some (entry_response cached) else None)"

definition cache_put :: "SmartRouter \<Rightarrow> string \<Rightarrow> RouterResponse \<Rightarrow> real \<Rightarrow> SmartRouter" where
  "cache_put st cache_key r now =
     st \<lparr> cache := (cache st) (cache_key \<mapsto> \<lparr> entry_response = r, entry_timestamp = now \<rparr>) \<rparr>"

text \<open>The model chosen for a request: automatic selection, or the named catalog entry.\<close>

definition choose_model :: "SmartRouter \<Rightarrow> QueryComplexity \<Rightarrow> string \<Rightarrow> error + Model" where
  "choose_model st complexity model_arg =
     (if model_arg = ''auto''
      then Inr (select_model complexity (strategy st) (custom_rules st))
      else (case models model_arg of
              None \<Rightarrow> Inl (UnknownModel model_arg)
            | Some m \<Rightarrow> Inr m))"

text \<open>
  What \<open>create\<close> does once the provider has answered with \<open>response_content\<close>: costs,
  savings, the response, the tracker entry and the cache write.
\<close>

definition finish_request ::
  "SmartRouter \<Rightarrow> clock \<Rightarrow> string \<Rightarrow> QueryComplexity \<Rightarrow> Model \<Rightarrow> string \<Rightarrow>
     RouterResponse \<times> SmartRouter" where
  "finish_request st clk cache_key complexity selected_model response_content =
     (let lat = time_end clk - time_start clk;
          n_out = int (length response_content) div 4;
          actual_cost = calculate_cost selected_model (token_count complexity) n_out;
          gpt4_cost = calculate_cost gpt_4 (token_count complexity) n_out;
          sav = max 0 (gpt4_cost - actual_cost);
          r = \<lparr> content = response_content, model = name selected_model,
                response_provider = provider_value (provider selected_model),
                input_tokens = token_count complexity, output_tokens = n_out,
                cost = actual_cost, savings = sav, latency = lat,
                response_quality_score = None \<rparr>;
          st1 = st \<lparr> tracker := track_request (tracker st) (now_track clk)
                  (name selected_model) (provider_value (provider selected_model))
                  (token_count complexity) n_out actual_cost sav lat None \<rparr>
      in (r, cache_put st1 cache_key r (time_store clk)))"

definition create ::
  "SmartRouter \<Rightarrow> env \<Rightarrow> clock \<Rightarrow> message list \<Rightarrow> string \<Rightarrow> (error + RouterResponse) \<times> SmartRouter" where
  "create st e clk messages model_arg =
     (let query = extract_query messages;
          cache_key = generate_cache_key (env_hash e) query
      in case cache_get st cache_key (time_check clk) of
           Some r \<Rightarrow> (Inr r, st)
         | None \<Rightarrow>
             let complexity = analyze (env_encode e) query in
             (case choose_model st complexity model_arg of
                Inl err \<Rightarrow> (Inl err, st)
              | Inr selected_model \<Rightarrow>
                  (case call_model_api st e selected_model messages of
                     Inl err \<Rightarrow> (Inl err, st)
                   | Inr response_content \<Rightarrow>
                       (case finish_request st clk cache_key complexity selected_model
                               response_content of
                          (r, st') \<Rightarrow> (Inr r, st')))))"

section \<open>Notions used to state the properties\<close>

text \<open>A category matches a text when one of its patterns does.\<close>

definition category_matches :: "string \<times> pattern list \<Rightarrow> string \<Rightarrow> bool" where
  "category_matches cat s = list_ex (\<lambda>p. re_search p s) (snd cat)"

text \<open>A rule is applicable when its condition holds and its model is in the catalog.\<close>

definition applicable :: "RoutingRule \<Rightarrow> QueryComplexity \<Rightarrow> bool" where
  "applicable r c = (condition r c \<and> models (rule_model r) \<noteq> None)"

text \<open>
  A rule is on top when it is applicable and no applicable rule of the list has a higher
  priority; \<open>top_rule\<close> is the first rule on top in the order of the list.
\<close>

definition on_top :: "RoutingRule list \<Rightarrow> QueryComplexity \<Rightarrow> RoutingRule \<Rightarrow> bool" where
  "on_top rules c r =
     (applicable r c \<and> list_all (\<lambda>r'. applicable r' c \<longrightarrow> priority r' \<le> priority r) rules)"

definition top_rule :: "RoutingRule list \<Rightarrow> QueryComplexity \<Rightarrow> RoutingRule option" where
  "top_rule rules c = find (on_top rules c) rules"



section \<open>Example inputs\<close>

text \<open>
  A tokenizer with one token per character, a hash, a provider client that always answers,
  the readings of a clock, and a router made as \<open>SmartRouter(openai_key="sk-test")\<close>.
\<close>

definition example_encode :: "string \<Rightarrow> int list" where
  "example_encode s = map of_char s"

definition example_hash :: "string \<Rightarrow> int" where
  "example_hash s = int (length s)"

definition example_invoke :: "ModelProvider \<Rightarrow> Model \<Rightarrow> message list \<Rightarrow> error + string" where
  "example_invoke p m msgs = Inr ''Bonjour!''"

definition example_env :: env where
  "example_env = \<lparr> env_encode = example_encode, env_hash = example_hash,
     env_invoke = example_invoke \<rparr>"

definition example_clock :: clock where
  "example_clock = \<lparr> time_check = 100, time_start = 101, time_end = 103, now_track = 0,
     time_store = 104 \<rparr>"

definition later_clock :: clock where
  "later_clock = \<lparr> time_check = 200, time_start = 201, time_end = 203, now_track = 1,
     time_store = 204 \<rparr>"

definition example_router :: SmartRouter where
  "example_router = \<lparr> strategy = ''balanced'', daily_budget = None, cache_ttl = 3600,
     enable_fallback = True, tracker = new_tracker,
     api_keys = [''openai'' \<mapsto> ''sk-test''], custom_rules = [], cache = Map.empty \<rparr>"

definition user_message :: "string \<Rightarrow> message" where
  "user_message text = [''role'' \<mapsto> ''user'', ''content'' \<mapsto> text]"

definition system_message :: "string \<Rightarrow> message" where
  "system_message text = [''role'' \<mapsto> ''system'', ''content'' \<mapsto> text]"

text \<open>The condition \<open>lambda q: q.task_type == "code"\<close> of the rules in the tests.\<close>

definition is_code_task :: "QueryComplexity \<Rightarrow> bool" where
  "is_code_task q = (task_type q = ''code'')"

definition rule_to_gpt_4 :: RoutingRule where
  "rule_to_gpt_4 = \<lparr> rule_name = ''code_to_gpt4'', condition = is_code_task,
     rule_model = ''gpt-4'', priority = 50 \<rparr>"

definition rule_to_mistral :: RoutingRule where
  "rule_to_mistral = \<lparr> rule_name = ''code_to_mistral'', condition = is_code_task,
     rule_model = ''mistral-7b'', priority = 50 \<rparr>"

definition rule_to_unknown :: RoutingRule where
  "rule_to_unknown = \<lparr> rule_name = ''code_to_gpt5'', condition = is_code_task,
     rule_model = ''gpt-5'', priority = 100 \<rparr>"

text \<open>The complexity descriptor of the code query in the tests.\<close>

definition code_complexity :: QueryComplexity where
  "code_complexity = \<lparr> token_count = 50, vocabulary_complexity = 6 / 10, task_type = ''code'',
     estimated_output_tokens = 100, required_capabilities = [''code_generation''],
     complexity_score = 8 / 10 \<rparr>"

definition medium_complexity :: QueryComplexity where
  "medium_complexity = \<lparr> token_count = 30, vocabulary_complexity = 6 / 10,
     task_type = ''general'', estimated_output_tokens = 30, required_capabilities = [],
     complexity_score = 6 / 10 \<rparr>"

text \<open>
  A provider client whose Anthropic requests fail, a router holding an OpenAI and an
  Anthropic key, and a router made with a strategy name that is none of the three.
\<close>

definition flaky_invoke :: "ModelProvider \<Rightarrow> Model \<Rightarrow> message list \<Rightarrow> error + string" where
  "flaky_invoke p m msgs = (if p = ANTHROPIC then Inl ProviderInvocationFailure else Inr ''Bonjour!'')"

definition flaky_env :: env where
  "flaky_env = \<lparr> env_encode = example_encode, env_hash = example_hash,
     env_invoke = flaky_invoke \<rparr>"

definition two_key_router :: SmartRouter where
  "two_key_router = example_router \<lparr> api_keys := [''openai'' \<mapsto> ''sk-test'', ''anthropic'' \<mapsto> ''sk-ant-test''] \<rparr>"

definition misconfigured_router :: SmartRouter where
  "misconfigured_router = example_router \<lparr> strategy := ''cheapest'' \<rparr>"



section \<open>Properties of the analyzer\<close>

lemma dict_get_task_scores_bounds:
  "1 / 10 \<le> dict_get task_scores t (5 / 10) \<and> dict_get task_scores t (5 / 10) \<le> 9 / 10"
  by (simp add: task_scores_def)

lemma vocabulary_ratio_bounds:
  fixes tokens :: "int list"
  assumes "tokens \<noteq> []"
  shows "0 \<le> real (length (remdups tokens)) / real (length tokens)"
    and "real (length (remdups tokens)) / real (length tokens) \<le> 1"
proof -
  have "length (remdups tokens) \<le> length tokens" by (rule length_remdups_leq)
  moreover have "0 < length tokens" using assms by simp
  ultimately show "real (length (remdups tokens)) / real (length tokens) \<le> 1" by simp
  show "0 \<le> real (length (remdups tokens)) / real (length tokens)" by simp
qed

lemma calculate_complexity_score_bounds:
  assumes "0 \<le> tc" and "0 \<le> vc" and "vc \<le> 1"
  shows "4 / 100 \<le> calculate_complexity_score tc vc t caps"
    and "calculate_complexity_score tc vc t caps \<le> 96 / 100"
proof -
  let ?ts = "min (of_int tc / 500) 1 * (2 / 10) :: real"
  let ?vs = "vc * (2 / 10)"
  let ?ks = "dict_get task_scores t (5 / 10) * (4 / 10)"
  let ?cs = "min (of_nat (length caps) * (1 / 10)) (2 / 10) :: real"
  have ts: "0 \<le> ?ts" "?ts \<le> 2 / 10" using assms(1) by (simp_all add: min_def)
  have vs: "0 \<le> ?vs" "?vs \<le> 2 / 10" using assms(2,3) by simp_all
  have ks: "4 / 100 \<le> ?ks" "?ks \<le> 36 / 100"
    using dict_get_task_scores_bounds [of t] by simp_all
  have cs: "0 \<le> ?cs" "?cs \<le> 2 / 10" by (simp_all add: min_def)
  have eq: "calculate_complexity_score tc vc t caps = ?ts + ?vs + ?ks + ?cs"
    by (simp add: calculate_complexity_score_def Let_def)
  show "4 / 100 \<le> calculate_complexity_score tc vc t caps"
    using ts(1) vs(1) ks(1) cs(1) unfolding eq by linarith
  show "calculate_complexity_score tc vc t caps \<le> 96 / 100"
    using ts(2) vs(2) ks(2) cs(2) unfolding eq by linarith
qed

lemma complexity_score_analyze:
  "complexity_score (analyze enc query) =
     calculate_complexity_score (int (length (enc query)))
       (if enc query \<noteq> [] then real (length (remdups (enc query))) / real (length (enc query)) else 0)
       (detect_task_type query)
       (detect_required_capabilities query (detect_task_type query))"
  by (simp add: analyze_def Let_def)

text \<open>
  C2. For every query text, the empty one included, and every tokenizer, the complexity
  score computed by \<open>analyze\<close> lies in the closed interval from 0 to 1.
\<close>

theorem complexity_score_in_unit_interval:
  "0 \<le> complexity_score (analyze enc query) \<and> complexity_score (analyze enc query) \<le> 1"
proof -
  let ?vc = "if enc query \<noteq> [] then real (length (remdups (enc query))) / real (length (enc query)) else 0"
  have v: "0 \<le> ?vc" "?vc \<le> 1"
    using vocabulary_ratio_bounds [of "enc query"] by simp_all
  have tc: "0 \<le> int (length (enc query))" by simp
  note b = calculate_complexity_score_bounds [OF tc v]
  show ?thesis
    unfolding complexity_score_analyze using b [of "detect_task_type query"
        "detect_required_capabilities query (detect_task_type query)"]
    by linarith
qed

section \<open>Task-type detection\<close>

lemma any_pattern_matches_iff: "any_pattern_matches ps s = list_ex (\<lambda>p. re_search p s) ps"
  by (induction ps) simp_all

lemma detect_loop_find:
  "detect_loop tbl s =
     (case find (\<lambda>cat. category_matches cat s) tbl of None \<Rightarrow> ''general'' | Some cat \<Rightarrow> fst cat)"
  by (induction tbl s rule: detect_loop.induct)
     (simp_all add: category_matches_def any_pattern_matches_iff)

text \<open>
  C8. The categories of \<open>task_patterns\<close> stand in the order simple_qa, summarization, code,
  analysis, creative, math, reasoning. Detection works on the lower-cased query: a category
  that matches while no earlier category does is the result, and when no category matches
  the result is general.
\<close>

theorem detect_task_type_first_match:
  "map fst task_patterns =
     [''simple_qa'', ''summarization'', ''code'', ''analysis'', ''creative'', ''math'', ''reasoning'']
   \<and> (\<forall>i < length task_patterns.
         category_matches (task_patterns ! i) (lower query)
         \<and> (\<forall>j < i. \<not> category_matches (task_patterns ! j) (lower query))
         \<longrightarrow> detect_task_type query = fst (task_patterns ! i))
   \<and> ((\<forall>cat \<in> set task_patterns. \<not> category_matches cat (lower query))
         \<longrightarrow> detect_task_type query = ''general'')"
proof (intro conjI allI impI)
  show "map fst task_patterns =
     [''simple_qa'', ''summarization'', ''code'', ''analysis'', ''creative'', ''math'', ''reasoning'']"
    by (simp add: task_patterns_def)
next
  fix i
  assume i: "i < length task_patterns"
    and m: "category_matches (task_patterns ! i) (lower query)
         \<and> (\<forall>j < i. \<not> category_matches (task_patterns ! j) (lower query))"
  then have "find (\<lambda>cat. category_matches cat (lower query)) task_patterns = Some (task_patterns ! i)"
    unfolding find_Some_iff by blast
  then show "detect_task_type query = fst (task_patterns ! i)"
    by (simp add: detect_task_type_def detect_loop_find)
next
  assume "\<forall>cat \<in> set task_patterns. \<not> category_matches cat (lower query)"
  then have "find (\<lambda>cat. category_matches cat (lower query)) task_patterns = None"
    unfolding find_None_iff by blast
  then show "detect_task_type query = ''general''"
    by (simp add: detect_task_type_def detect_loop_find)
qed

lemma lower_solve_example:
  "lower ''Solve it with an ALGORITHM'' = ''solve it with an algorithm''"
  by code_simp

lemma lower_hello_example: "lower ''Hello there'' = ''hello there''"
  by code_simp

text \<open>
  The query \<open>Solve it with an ALGORITHM\<close> matches the categories code (third) and math
  (sixth) and neither of the first two: it is a code query. \<open>Hello there\<close> matches nothing.
\<close>

theorem detect_task_type_first_match_witness:
  "detect_task_type ''Solve it with an ALGORITHM'' = ''code''
   \<and> category_matches (task_patterns ! 5) (lower ''Solve it with an ALGORITHM'')
   \<and> detect_task_type ''Hello there'' = ''general''"
proof -
  let ?q = "''Solve it with an ALGORITHM''"
  have len: "2 < length task_patterns" by (simp add: task_patterns_def)
  have m: "category_matches (task_patterns ! 2) (lower ?q)"
    unfolding lower_solve_example
    by (simp add: task_patterns_def category_matches_def re_search_def)
  have n: "\<forall>j < 2. \<not> category_matches (task_patterns ! j) (lower ?q)"
    unfolding lower_solve_example
    by (simp add: task_patterns_def category_matches_def re_search_def less_Suc_eq numeral_2_eq_2)
  have m5: "category_matches (task_patterns ! 5) (lower ?q)"
    unfolding lower_solve_example
    by (simp add: task_patterns_def category_matches_def re_search_def)
  have none: "\<forall>cat \<in> set task_patterns. \<not> category_matches cat (lower ''Hello there'')"
    unfolding lower_hello_example
    by (simp add: task_patterns_def category_matches_def re_search_def)
  have t: "fst (task_patterns ! 2) = ''code''" by (simp add: task_patterns_def)
  from detect_task_type_first_match [of ?q] len m n t
  have "detect_task_type ?q = ''code''" by metis
  moreover from detect_task_type_first_match [of "''Hello there''"] none
  have "detect_task_type ''Hello there'' = ''general''" by blast
  ultimately show ?thesis using m5 by blast
qed

section \<open>Custom rules\<close>

lemma find_filter_conv:
  "find P xs = (case filter P xs of [] \<Rightarrow> None | y # ys \<Rightarrow> Some y)"
  by (induction xs) simp_all

lemma apply_rules_find:
  "apply_rules rs c =
     (case find (\<lambda>r. applicable r c) rs of None \<Rightarrow> None | Some r \<Rightarrow> models (rule_model r))"
  by (induction rs) (auto simp: applicable_def split: option.splits)


text \<open>
  The head of a stable sort is the first element of the list among those with the least
  key.
\<close>

lemma sort_key_head:
  fixes f :: "'a \<Rightarrow> int"
  assumes "sort_key f ys = z # zs"
  shows "z \<in> set ys" and "\<forall>y \<in> set ys. f z \<le> f y"
    and "\<exists>rest. filter (\<lambda>y. f y = f z) ys = z # rest"
proof -
  have "set (sort_key f ys) = set ys" by simp
  then have s: "set ys = insert z (set zs)" using assms by simp
  then show "z \<in> set ys" by simp
  have "sorted (map f (sort_key f ys))" by simp
  then have "\<forall>y \<in> set zs. f z \<le> f y" using assms by simp
  then show "\<forall>y \<in> set ys. f z \<le> f y" using s by auto
  have "filter (\<lambda>y. f y = f z) ys = filter (\<lambda>y. f y = f z) (sort_key f ys)"
    by (simp add: sort_key_stable)
  also have "\<dots> = z # filter (\<lambda>y. f y = f z) zs" using assms by simp
  finally show "\<exists>rest. filter (\<lambda>y. f y = f z) ys = z # rest" by blast
qed

text \<open>
  When some rule is applicable, the loop over the sorted rules returns the catalog model
  of \<open>top_rule\<close>.
\<close>

lemma apply_rules_sorted_top:
  assumes ex: "\<exists>r \<in> set rules. applicable r c"
  shows "\<exists>r m. top_rule rules c = Some r \<and> models (rule_model r) = Some m
           \<and> apply_rules (sorted_by_priority rules) c = Some m"
proof -
  let ?f = "\<lambda>r. - priority r"
  let ?P = "\<lambda>r. applicable r c"
  let ?ys = "filter ?P rules"
  from ex have "?ys \<noteq> []" by (simp add: filter_empty_conv)
  then have "length (sort_key ?f ?ys) \<noteq> 0" by simp
  then obtain z zs where zs: "sort_key ?f ?ys = z # zs" by (cases "sort_key ?f ?ys") auto
  note h = sort_key_head [OF zs]
  from h(1) have zin: "z \<in> set rules" and zapp: "applicable z c" by simp_all
  from h(2) have zmax: "\<forall>y \<in> set rules. applicable y c \<longrightarrow> priority y \<le> priority z" by simp
  from h(3) obtain rest where rest: "filter (\<lambda>y. ?f y = ?f z) ?ys = z # rest" by blast
  have "filter ?P (sorted_by_priority rules) = z # zs"
    using zs by (simp add: sorted_by_priority_def filter_sort)
  then have "find ?P (sorted_by_priority rules) = Some z"
    by (simp add: find_filter_conv)
  then have a: "apply_rules (sorted_by_priority rules) c = models (rule_model z)"
    by (simp add: apply_rules_find)
  have "filter (on_top rules c) rules
      = filter (\<lambda>x. applicable x c \<and> - priority x = - priority z) rules"
  proof (rule filter_cong [OF refl])
    fix x assume x: "x \<in> set rules"
    show "on_top rules c x = (applicable x c \<and> - priority x = - priority z)"
      using zmax zapp zin x by (fastforce simp: on_top_def list_all_iff)
  qed
  also have "\<dots> = filter (\<lambda>y. ?f y = ?f z) ?ys" by (simp add: filter_filter)
  finally have "filter (on_top rules c) rules = filter (\<lambda>y. ?f y = ?f z) ?ys" .
  then have "top_rule rules c = Some z"
    using rest by (simp add: top_rule_def find_filter_conv)
  moreover obtain m where "models (rule_model z) = Some m"
    using zapp by (auto simp: applicable_def)
  ultimately show ?thesis using a by auto
qed

lemma top_rule_on_top:
  assumes "top_rule rules c = Some r"
  shows "r \<in> set rules" and "on_top rules c r"
  using assms unfolding top_rule_def find_Some_iff by auto

lemma on_top_perm:
  assumes "set rules' = set rules"
  shows "on_top rules' c r = on_top rules c r"
  using assms by (simp add: on_top_def list_all_iff)

lemma select_model_rule:
  assumes "apply_rules (sorted_by_priority rules) c = Some m" and "rules \<noteq> []"
  shows "select_model c strat rules = m"
  using assms by (simp add: select_model_def)

text \<open>
  C3, as amended. If some rule is applicable (its predicate holds and its model is in the
  catalog), selection returns, whatever the strategy, the catalog model named by the first
  rule of the list among the applicable rules of highest priority; rules naming unknown
  models are passed over. The result does not depend on the order of the list when all
  applicable rules of highest priority name the same model.
\<close>

theorem select_model_top_rule:
  assumes "\<exists>r \<in> set rules. applicable r c"
  shows "(\<exists>r. top_rule rules c = Some r
            \<and> models (rule_model r) = Some (select_model c strat rules))
         \<and> (\<forall>rules'. mset rules' = mset rules
              \<and> (\<forall>r1 \<in> set rules. \<forall>r2 \<in> set rules.
                    on_top rules c r1 \<and> on_top rules c r2 \<longrightarrow> rule_model r1 = rule_model r2)
              \<longrightarrow> select_model c strat rules' = select_model c strat rules)"
proof (intro conjI allI impI)
  from assms have ne: "rules \<noteq> []" by auto
  from apply_rules_sorted_top [OF assms] obtain r m where
    r: "top_rule rules c = Some r" "models (rule_model r) = Some m"
       "apply_rules (sorted_by_priority rules) c = Some m" by blast
  have sel: "select_model c strat rules = m" by (rule select_model_rule [OF r(3) ne])
  show "\<exists>r. top_rule rules c = Some r \<and> models (rule_model r) = Some (select_model c strat rules)"
    using r sel by auto
  fix rules'
  assume h: "mset rules' = mset rules
     \<and> (\<forall>r1 \<in> set rules. \<forall>r2 \<in> set rules.
            on_top rules c r1 \<and> on_top rules c r2 \<longrightarrow> rule_model r1 = rule_model r2)"
  then have seteq: "set rules' = set rules" by (metis set_mset_mset)
  then have ex': "\<exists>r \<in> set rules'. applicable r c" and ne': "rules' \<noteq> []"
    using assms by auto
  from apply_rules_sorted_top [OF ex'] obtain r' m' where
    r': "top_rule rules' c = Some r'" "models (rule_model r') = Some m'"
        "apply_rules (sorted_by_priority rules') c = Some m'" by blast
  have sel': "select_model c strat rules' = m'" by (rule select_model_rule [OF r'(3) ne'])
  have t: "r \<in> set rules" "on_top rules c r" using top_rule_on_top [OF r(1)] by simp_all
  have t': "r' \<in> set rules" "on_top rules c r'"
    using top_rule_on_top [OF r'(1)] seteq on_top_perm [OF seteq] by simp_all
  from h t t' have "rule_model r' = rule_model r" by blast
  then show "select_model c strat rules' = select_model c strat rules"
    using sel sel' r(2) r'(2) by simp
qed

lemma models_lookup_examples:
  "models ''gpt-4'' = Some gpt_4" "models ''mistral-7b'' = Some mistral_7b"
  "models ''gpt-3.5-turbo'' = Some gpt_3_5_turbo" "models ''gemini-pro'' = Some gemini_pro"
  "models ''claude-3-haiku'' = Some claude_3_haiku" "models ''claude-3-opus'' = Some claude_3_opus"
  "models ''gpt-4o-mini'' = Some gpt_4o_mini" "models ''gpt-5'' = None"
  by (simp_all add: models_def initialize_models_def)

text \<open>
  The rule to the unknown model \<open>gpt-5\<close> has priority 100 and is passed over; the rule to
  \<open>gpt-4\<close> decides, under the cost-optimized strategy too, and in either order of the list.
\<close>

theorem select_model_top_rule_witness:
  "select_model code_complexity ''cost_optimized'' [rule_to_unknown, rule_to_gpt_4] = gpt_4
   \<and> select_model code_complexity ''cost_optimized'' [rule_to_gpt_4, rule_to_unknown] = gpt_4"
proof -
  let ?rules = "[rule_to_unknown, rule_to_gpt_4]"
  have app: "applicable rule_to_gpt_4 code_complexity"
    by (simp add: applicable_def rule_to_gpt_4_def is_code_task_def code_complexity_def
        models_lookup_examples)
  have napp: "\<not> applicable rule_to_unknown code_complexity"
    by (simp add: applicable_def rule_to_unknown_def models_lookup_examples)
  have ex: "\<exists>r \<in> set ?rules. applicable r code_complexity" using app by simp
  note t = select_model_top_rule [OF ex, of "''cost_optimized''"]
  have top: "top_rule ?rules code_complexity = Some rule_to_gpt_4"
    using app napp by (simp add: top_rule_def on_top_def)
  from t top have 1: "select_model code_complexity ''cost_optimized'' ?rules = gpt_4"
    by (simp add: rule_to_gpt_4_def models_lookup_examples)
  have ties: "\<forall>r1 \<in> set ?rules. \<forall>r2 \<in> set ?rules.
      on_top ?rules code_complexity r1 \<and> on_top ?rules code_complexity r2
      \<longrightarrow> rule_model r1 = rule_model r2"
    using napp by (auto simp: on_top_def)
  have p: "mset [rule_to_gpt_4, rule_to_unknown] = mset ?rules" by simp
  from t p ties
  have "select_model code_complexity ''cost_optimized'' [rule_to_gpt_4, rule_to_unknown]
      = select_model code_complexity ''cost_optimized'' ?rules" by blast
  then show ?thesis using 1 by simp
qed

text \<open>
  Two applicable rules of equal priority and different models: the rule added first
  decides, so the result depends on the order of the list.
\<close>

theorem select_model_order_counterexample:
  "select_model code_complexity ''cost_optimized'' [rule_to_gpt_4, rule_to_mistral] = gpt_4
   \<and> select_model code_complexity ''cost_optimized'' [rule_to_mistral, rule_to_gpt_4] = mistral_7b
   \<and> gpt_4 \<noteq> mistral_7b"
  by (simp add: select_model_def sorted_by_priority_def rule_to_gpt_4_def rule_to_mistral_def
      is_code_task_def code_complexity_def models_lookup_examples gpt_4_def mistral_7b_def)

section \<open>The cost-optimized ladder\<close>

text \<open>Two queries and their analysis under the one-token-per-character tokenizer.\<close>

lemma lower_how_does_it_work: "lower ''how does it work'' = ''how does it work''"
  by code_simp

lemma lower_how_does_xml: "lower ''how does xml 1+2'' = ''how does xml 1+2''"
  by code_simp

lemma analyze_how_does_it_work:
  "analyze example_encode ''how does it work'' =
     \<lparr> token_count = 16, vocabulary_complexity = 11 / 16, task_type = ''reasoning'',
       estimated_output_tokens = 32, required_capabilities = [''complex_reasoning''],
       complexity_score = 6039 / 10000 \<rparr>"
proof -
  have t: "detect_task_type ''how does it work'' = ''reasoning''"
    unfolding detect_task_type_def lower_how_does_it_work
    by (simp add: task_patterns_def re_search_def)
  have c: "detect_required_capabilities ''how does it work'' ''reasoning'' = [''complex_reasoning'']"
    unfolding detect_required_capabilities_def lower_how_does_it_work
    by (simp add: re_search_def is_digit_def is_operator_def)
  show ?thesis
    by (simp add: analyze_def Let_def t c example_encode_def estimate_output_tokens_def
        multipliers_def py_int_def calculate_complexity_score_def task_scores_def)
qed

lemma analyze_how_does_xml:
  "analyze example_encode ''how does xml 1+2'' =
     \<lparr> token_count = 16, vocabulary_complexity = 13 / 16, task_type = ''reasoning'',
       estimated_output_tokens = 32,
       required_capabilities = [''mathematical_reasoning'', ''complex_reasoning'', ''structured_output''],
       complexity_score = 7289 / 10000 \<rparr>"
proof -
  have t: "detect_task_type ''how does xml 1+2'' = ''reasoning''"
    unfolding detect_task_type_def lower_how_does_xml
    by (simp add: task_patterns_def re_search_def)
  have c: "detect_required_capabilities ''how does xml 1+2'' ''reasoning''
      = [''mathematical_reasoning'', ''complex_reasoning'', ''structured_output'']"
    unfolding detect_required_capabilities_def lower_how_does_xml
    by (simp add: re_search_def is_digit_def is_operator_def)
  show ?thesis
    by (simp add: analyze_def Let_def t c example_encode_def estimate_output_tokens_def
        multipliers_def py_int_def calculate_complexity_score_def task_scores_def)
qed

text \<open>
  C4. Under the cost-optimized strategy a descriptor of score 0.6 is routed to
  \<open>gpt-3.5-turbo\<close> and a descriptor of score 0.8 to \<open>gemini-pro\<close>, whose input price and
  output price in the catalog are both lower: the fourth tier is cheaper than the third.
  The analyzer produces such descriptors: with one token per character the query
  \<open>how does it work\<close> has the score 0.6039 and the query \<open>how does xml 1+2\<close> the score
  0.7289.
\<close>

theorem cost_optimized_higher_score_cheaper_model:
  "complexity_score medium_complexity < complexity_score code_complexity
   \<and> select_model medium_complexity ''cost_optimized'' [] = gpt_3_5_turbo
   \<and> select_model code_complexity ''cost_optimized'' [] = gemini_pro
   \<and> complexity_score (analyze example_encode ''how does it work'')
       < complexity_score (analyze example_encode ''how does xml 1+2'')
   \<and> select_model (analyze example_encode ''how does it work'') ''cost_optimized'' [] = gpt_3_5_turbo
   \<and> select_model (analyze example_encode ''how does xml 1+2'') ''cost_optimized'' [] = gemini_pro
   \<and> cost_per_1k_input gemini_pro < cost_per_1k_input gpt_3_5_turbo
   \<and> cost_per_1k_output gemini_pro < cost_per_1k_output gpt_3_5_turbo
   \<and> calculate_cost gemini_pro 1000 1000 < calculate_cost gpt_3_5_turbo 1000 1000"
  unfolding analyze_how_does_it_work analyze_how_does_xml
  by (simp add: select_model_def select_cost_optimized_def medium_complexity_def
      code_complexity_def gemini_pro_def gpt_3_5_turbo_def calculate_cost_def)

section \<open>Requests served by the router\<close>

lemma model_names:
  "name gpt_4 = ''gpt-4''" "name mistral_7b = ''mistral-7b''"
  "name gpt_3_5_turbo = ''gpt-3.5-turbo''" "name gemini_pro = ''gemini-pro''"
  "name claude_3_haiku = ''claude-3-haiku''" "name claude_3_opus = ''claude-3-opus''"
  "name gpt_4o_mini = ''gpt-4o-mini''"
  by (simp_all add: gpt_3_5_turbo_def gpt_4o_mini_def gpt_4_def
        claude_3_haiku_def claude_3_opus_def mistral_7b_def gemini_pro_def)






text \<open>The path of \<open>create\<close> after a cache miss.\<close>

lemma create_miss:
  assumes "cache_get st (generate_cache_key (env_hash e) (extract_query messages)) (time_check clk)
             = None"
  shows "create st e clk messages model_arg =
     (case choose_model st (analyze (env_encode e) (extract_query messages)) model_arg of
        Inl err \<Rightarrow> (Inl err, st)
      | Inr m \<Rightarrow>
          (case call_model_api st e m messages of
             Inl err \<Rightarrow> (Inl err, st)
           | Inr text \<Rightarrow>
               (Inr (fst (finish_request st clk
                       (generate_cache_key (env_hash e) (extract_query messages))
                       (analyze (env_encode e) (extract_query messages)) m text)),
                snd (finish_request st clk
                       (generate_cache_key (env_hash e) (extract_query messages))
                       (analyze (env_encode e) (extract_query messages)) m text))))"
  using assms by (simp add: create_def Let_def split: sum.splits prod.splits)

lemma create_hit:
  assumes "cache_get st (generate_cache_key (env_hash e) (extract_query messages)) (time_check clk)
             = Some r"
  shows "create st e clk messages model_arg = (Inr r, st)"
  using assms by (simp add: create_def Let_def)

lemma fst_finish_request:
  "fst (finish_request st clk k c m text) =
     \<lparr> content = text, model = name m, response_provider = provider_value (provider m),
       input_tokens = token_count c, output_tokens = int (length text) div 4,
       cost = calculate_cost m (token_count c) (int (length text) div 4),
       savings = max 0 (calculate_cost gpt_4 (token_count c) (int (length text) div 4)
                         - calculate_cost m (token_count c) (int (length text) div 4)),
       latency = time_end clk - time_start clk, response_quality_score = None \<rparr>"
  by (simp add: finish_request_def Let_def)

lemma create_miss_response:
  assumes miss: "cache_get st (generate_cache_key (env_hash e) (extract_query messages))
                   (time_check clk) = None"
    and res: "create st e clk messages model_arg = (Inr r, st')"
  shows "\<exists>m text. choose_model st (analyze (env_encode e) (extract_query messages)) model_arg = Inr m
           \<and> call_model_api st e m messages = Inr text
           \<and> r = fst (finish_request st clk
                       (generate_cache_key (env_hash e) (extract_query messages))
                       (analyze (env_encode e) (extract_query messages)) m text)
           \<and> st' = snd (finish_request st clk
                       (generate_cache_key (env_hash e) (extract_query messages))
                       (analyze (env_encode e) (extract_query messages)) m text)"
  using res unfolding create_miss [OF miss] by (auto split: sum.splits)

text \<open>Evaluation of the example request \<open>hi\<close>.\<close>

lemma lower_hi: "lower ''hi'' = ''hi''"
  by code_simp

lemma analyze_hi:
  "analyze example_encode ''hi'' =
     \<lparr> token_count = 2, vocabulary_complexity = 1, task_type = ''general'',
       estimated_output_tokens = 2, required_capabilities = [],
       complexity_score = 2004 / 5000 \<rparr>"
proof -
  have t: "detect_task_type ''hi'' = ''general''"
    unfolding detect_task_type_def lower_hi
    by (simp add: task_patterns_def re_search_def)
  have c: "detect_required_capabilities ''hi'' ''general'' = []"
    unfolding detect_required_capabilities_def lower_hi
    by (simp add: re_search_def)
  show ?thesis
    by (simp add: analyze_def Let_def t c example_encode_def estimate_output_tokens_def
        multipliers_def py_int_def calculate_complexity_score_def task_scores_def)
qed

lemma extract_hi: "extract_query [user_message ''hi''] = ''hi''"
  by (simp add: extract_query_def user_message_def)

lemma cache_key_hi: "generate_cache_key example_hash ''hi'' = ''2''"
  by code_simp

lemma example_select_hi:
  "select_model (analyze example_encode ''hi'') ''balanced'' [] = gpt_3_5_turbo"
  by (simp add: analyze_hi select_model_def select_balanced_def)

lemma example_miss:
  "cache_get example_router (generate_cache_key (env_hash example_env)
      (extract_query [user_message ''hi''])) (time_check example_clock) = None"
  by (simp add: cache_get_def example_router_def)

lemma example_call:
  "call_model_api example_router example_env gpt_3_5_turbo msgs = Inr ''Bonjour!''"
  by (simp add: call_model_api_def call_primary_def call_openai_api_def key_missing_def
      example_router_def example_env_def example_invoke_def gpt_3_5_turbo_def)

lemma example_create_hi:
  "fst (create example_router example_env example_clock [user_message ''hi''] ''auto'') =
     Inr \<lparr> content = ''Bonjour!'', model = ''gpt-3.5-turbo'', response_provider = ''openai'',
           input_tokens = 2, output_tokens = 2, cost = 4 / 1000000, savings = 176 / 1000000,
           latency = 2, response_quality_score = None \<rparr>"
proof -
  have c: "choose_model example_router (analyze (env_encode example_env)
             (extract_query [user_message ''hi''])) ''auto'' = Inr gpt_3_5_turbo"
    using example_select_hi
    by (simp add: choose_model_def extract_hi example_env_def example_router_def)
  have f: "fst (finish_request example_router example_clock k
              (analyze example_encode ''hi'') gpt_3_5_turbo ''Bonjour!'') =
     \<lparr> content = ''Bonjour!'', model = ''gpt-3.5-turbo'', response_provider = ''openai'',
           input_tokens = 2, output_tokens = 2, cost = 4 / 1000000, savings = 176 / 1000000,
           latency = 2, response_quality_score = None \<rparr>" for k
    by (simp add: fst_finish_request analyze_hi calculate_cost_def gpt_3_5_turbo_def gpt_4_def
        example_clock_def)
  have e: "env_encode example_env = example_encode" by (simp add: example_env_def)
  show ?thesis
    unfolding create_miss [OF example_miss] c
    by (simp add: example_call extract_hi e f)
qed



section \<open>Fallback\<close>

text \<open>
  C5, as amended. When the primary invocation fails, fallback is enabled and the fallback
  call (OpenAI with \<open>gpt-3.5-turbo\<close>) answers, the response carries the text of the
  fallback call, and the name, the provider, the cost and the savings of the model that
  was selected first.
\<close>

theorem create_fallback_attribution:
  assumes "cache_get st (generate_cache_key (env_hash e) (extract_query messages)) (time_check clk)
             = None"
    and "choose_model st (analyze (env_encode e) (extract_query messages)) model_arg = Inr sel"
    and "call_primary st e sel messages = Inl err"
    and "enable_fallback st"
    and "call_openai_api st e gpt_3_5_turbo messages = Inr reply"
  shows "\<exists>r st'. create st e clk messages model_arg = (Inr r, st')
           \<and> content r = reply
           \<and> model r = name sel
           \<and> response_provider r = provider_value (provider sel)
           \<and> cost r = calculate_cost sel (input_tokens r) (output_tokens r)
           \<and> savings r = max 0 (calculate_cost gpt_4 (input_tokens r) (output_tokens r) - cost r)"
proof -
  have "call_model_api st e sel messages = Inr reply"
    using assms(3,4,5) by (simp add: call_model_api_def)
  then show ?thesis
    unfolding create_miss [OF assms(1)] assms(2)
    by (simp add: fst_finish_request)
qed

lemma example_miss_any:
  "cache_get (example_router \<lparr> api_keys := ks \<rparr>) k t = None"
  "cache_get (example_router \<lparr> strategy := s \<rparr>) k t = None"
  by (simp_all add: cache_get_def example_router_def)

lemma flaky_primary:
  "call_primary two_key_router flaky_env claude_3_opus msgs = Inl ProviderInvocationFailure"
  by (simp add: call_primary_def call_anthropic_api_def key_missing_def two_key_router_def
      example_router_def flaky_env_def flaky_invoke_def claude_3_opus_def)

lemma flaky_fallback:
  "call_openai_api two_key_router flaky_env gpt_3_5_turbo msgs = Inr ''Bonjour!''"
  by (simp add: call_openai_api_def key_missing_def two_key_router_def
      example_router_def flaky_env_def flaky_invoke_def)

lemma flaky_create_hi:
  "fst (create two_key_router flaky_env example_clock [user_message ''hi''] ''claude-3-opus'') =
     Inr \<lparr> content = ''Bonjour!'', model = ''claude-3-opus'', response_provider = ''anthropic'',
           input_tokens = 2, output_tokens = 2, cost = 18 / 100000, savings = 0,
           latency = 2, response_quality_score = None \<rparr>"
proof -
  have miss: "cache_get two_key_router (generate_cache_key (env_hash flaky_env)
      (extract_query [user_message ''hi''])) (time_check example_clock) = None"
    unfolding two_key_router_def by (rule example_miss_any)
  have c: "choose_model two_key_router (analyze (env_encode flaky_env)
             (extract_query [user_message ''hi''])) ''claude-3-opus'' = Inr claude_3_opus"
    by (simp add: choose_model_def models_lookup_examples)
  have en: "enable_fallback two_key_router"
    by (simp add: two_key_router_def example_router_def)
  have call: "call_model_api two_key_router flaky_env claude_3_opus msgs = Inr ''Bonjour!''" for msgs
    by (simp add: call_model_api_def flaky_primary flaky_fallback en)
  have f: "fst (finish_request two_key_router example_clock k
              (analyze example_encode ''hi'') claude_3_opus ''Bonjour!'') =
     \<lparr> content = ''Bonjour!'', model = ''claude-3-opus'', response_provider = ''anthropic'',
           input_tokens = 2, output_tokens = 2, cost = 18 / 100000, savings = 0,
           latency = 2, response_quality_score = None \<rparr>" for k
    by (simp add: fst_finish_request analyze_hi calculate_cost_def claude_3_opus_def gpt_4_def
        example_clock_def)
  have e: "env_encode flaky_env = example_encode" by (simp add: flaky_env_def)
  show ?thesis
    unfolding create_miss [OF miss] c
    by (simp add: call extract_hi e f)
qed

text \<open>
  The request \<open>hi\<close> for \<open>claude-3-opus\<close> while Anthropic requests fail: the answer comes
  from \<open>gpt-3.5-turbo\<close>, the response names \<open>claude-3-opus\<close> and is priced at its rates.
\<close>

theorem create_fallback_attribution_witness:
  "call_primary two_key_router flaky_env claude_3_opus [user_message ''hi'']
     = Inl ProviderInvocationFailure
   \<and> enable_fallback two_key_router
   \<and> call_openai_api two_key_router flaky_env gpt_3_5_turbo [user_message ''hi''] = Inr ''Bonjour!''
   \<and> fst (create two_key_router flaky_env example_clock [user_message ''hi''] ''claude-3-opus'') =
       Inr \<lparr> content = ''Bonjour!'', model = name claude_3_opus,
             response_provider = provider_value (provider claude_3_opus),
             input_tokens = 2, output_tokens = 2, cost = calculate_cost claude_3_opus 2 2,
             savings = max 0 (calculate_cost gpt_4 2 2 - calculate_cost claude_3_opus 2 2),
             latency = 2, response_quality_score = None \<rparr>"
proof -
  let ?msgs = "[user_message ''hi'']"
  have miss: "cache_get two_key_router (generate_cache_key (env_hash flaky_env)
      (extract_query ?msgs)) (time_check example_clock) = None"
    unfolding two_key_router_def by (rule example_miss_any)
  have c: "choose_model two_key_router (analyze (env_encode flaky_env)
             (extract_query ?msgs)) ''claude-3-opus'' = Inr claude_3_opus"
    by (simp add: choose_model_def models_lookup_examples)
  have en: "enable_fallback two_key_router"
    by (simp add: two_key_router_def example_router_def)
  from create_fallback_attribution [OF miss c flaky_primary en flaky_fallback]
  obtain r st' where r:
    "create two_key_router flaky_env example_clock ?msgs ''claude-3-opus'' = (Inr r, st')"
    "content r = ''Bonjour!''" "model r = name claude_3_opus"
    "response_provider r = provider_value (provider claude_3_opus)"
    "cost r = calculate_cost claude_3_opus (input_tokens r) (output_tokens r)"
    "savings r = max 0 (calculate_cost gpt_4 (input_tokens r) (output_tokens r) - cost r)"
    by blast
  from r(1) flaky_create_hi have v: "r = \<lparr> content = ''Bonjour!'', model = ''claude-3-opus'',
           response_provider = ''anthropic'',
           input_tokens = 2, output_tokens = 2, cost = 18 / 100000, savings = 0,
           latency = 2, response_quality_score = None \<rparr>" by simp
  have "fst (create two_key_router flaky_env example_clock ?msgs ''claude-3-opus'') = Inr r"
    using r(1) by simp
  moreover have "r = \<lparr> content = ''Bonjour!'', model = name claude_3_opus,
             response_provider = provider_value (provider claude_3_opus),
             input_tokens = 2, output_tokens = 2, cost = calculate_cost claude_3_opus 2 2,
             savings = max 0 (calculate_cost gpt_4 2 2 - calculate_cost claude_3_opus 2 2),
             latency = 2, response_quality_score = None \<rparr>"
    using r(2-6) unfolding v by simp
  ultimately show ?thesis using flaky_primary flaky_fallback en by simp
qed

text \<open>
  The same request against the claim: the response is attributed to \<open>claude-3-opus\<close> of
  provider \<open>anthropic\<close> at cost 0.00018 and savings 0, not to the fallback model
  \<open>gpt-3.5-turbo\<close> of provider \<open>openai\<close>, whose cost for these token counts is 0.000004 and
  whose savings would be 0.000176.
\<close>

theorem create_fallback_attribution_counterexample:
  "call_primary two_key_router flaky_env claude_3_opus [user_message ''hi'']
     = Inl ProviderInvocationFailure
   \<and> enable_fallback two_key_router
   \<and> fst (create two_key_router flaky_env example_clock [user_message ''hi''] ''claude-3-opus'') =
       Inr \<lparr> content = ''Bonjour!'', model = ''claude-3-opus'', response_provider = ''anthropic'',
             input_tokens = 2, output_tokens = 2, cost = 18 / 100000, savings = 0,
             latency = 2, response_quality_score = None \<rparr>
   \<and> name gpt_3_5_turbo = ''gpt-3.5-turbo''
   \<and> provider_value (provider gpt_3_5_turbo) = ''openai''
   \<and> calculate_cost gpt_3_5_turbo 2 2 = 4 / 1000000
   \<and> max 0 (calculate_cost gpt_4 2 2 - calculate_cost gpt_3_5_turbo 2 2) = 176 / 1000000"
  using flaky_primary [of "[user_message ''hi'']"] flaky_create_hi
  by (simp add: two_key_router_def example_router_def calculate_cost_def gpt_3_5_turbo_def gpt_4_def)

section \<open>Strategy names and explicit model names\<close>

text \<open>
  C9, as amended. A strategy name other than \<open>cost_optimized\<close> and \<open>quality_first\<close> is
  handled as \<open>balanced\<close>, so automatic selection always yields a model and never fails.
  An explicit model name that is not in the catalog makes a request that misses the cache
  fail with the unknown-model error, and leaves the router as it was.
\<close>

theorem unknown_strategy_is_balanced:
  "(strat \<noteq> ''cost_optimized'' \<and> strat \<noteq> ''quality_first''
      \<longrightarrow> select_model c strat rules = select_model c ''balanced'' rules)
   \<and> choose_model st c ''auto'' = Inr (select_model c (strategy st) (custom_rules st))
   \<and> (model_arg \<noteq> ''auto'' \<and> models model_arg = None
       \<and> cache_get st (generate_cache_key (env_hash e) (extract_query messages)) (time_check clk)
            = None
      \<longrightarrow> create st e clk messages model_arg = (Inl (UnknownModel model_arg), st))"
proof (intro conjI impI)
  assume "strat \<noteq> ''cost_optimized'' \<and> strat \<noteq> ''quality_first''"
  then show "select_model c strat rules = select_model c ''balanced'' rules"
    by (simp add: select_model_def)
next
  show "choose_model st c ''auto'' = Inr (select_model c (strategy st) (custom_rules st))"
    by (simp add: choose_model_def)
next
  assume h: "model_arg \<noteq> ''auto'' \<and> models model_arg = None
       \<and> cache_get st (generate_cache_key (env_hash e) (extract_query messages)) (time_check clk)
            = None"
  then have "choose_model st (analyze (env_encode e) (extract_query messages)) model_arg
      = Inl (UnknownModel model_arg)"
    by (simp add: choose_model_def)
  then show "create st e clk messages model_arg = (Inl (UnknownModel model_arg), st)"
    using h by (simp add: create_miss)
qed

theorem unknown_strategy_is_balanced_witness:
  "select_model code_complexity ''cheapest'' [] = select_model code_complexity ''balanced'' []
   \<and> select_model code_complexity ''balanced'' [] = gpt_4
   \<and> models ''gpt-5'' = None
   \<and> create example_router example_env example_clock [user_message ''hi''] ''gpt-5''
       = (Inl (UnknownModel ''gpt-5''), example_router)"
proof -
  have 1: "select_model code_complexity ''cheapest'' [] = select_model code_complexity ''balanced'' []"
    using unknown_strategy_is_balanced [of "''cheapest''" code_complexity "[]"] by simp
  have 2: "select_model code_complexity ''balanced'' [] = gpt_4"
    by (simp add: select_model_def select_balanced_def code_complexity_def)
  have 3: "create example_router example_env example_clock [user_message ''hi''] ''gpt-5''
       = (Inl (UnknownModel ''gpt-5''), example_router)"
    using unknown_strategy_is_balanced [of _ _ _ example_router "''gpt-5''" example_env
        "[user_message ''hi'']" example_clock] example_miss
    by (simp add: models_lookup_examples)
  show ?thesis using 1 2 3 by (simp add: models_lookup_examples)
qed

text \<open>
  A router made with the strategy name \<open>cheapest\<close> serves the request \<open>hi\<close> as the balanced
  strategy does; no error is raised.
\<close>

theorem unknown_strategy_counterexample:
  "strategy misconfigured_router = ''cheapest''
   \<and> fst (create misconfigured_router example_env example_clock [user_message ''hi''] ''auto'') =
       Inr \<lparr> content = ''Bonjour!'', model = ''gpt-3.5-turbo'', response_provider = ''openai'',
           input_tokens = 2, output_tokens = 2, cost = 4 / 1000000, savings = 176 / 1000000,
           latency = 2, response_quality_score = None \<rparr>"
proof -
  have miss: "cache_get misconfigured_router (generate_cache_key (env_hash example_env)
      (extract_query [user_message ''hi''])) (time_check example_clock) = None"
    unfolding misconfigured_router_def by (rule example_miss_any)
  have s: "select_model (analyze example_encode ''hi'') ''cheapest'' [] = gpt_3_5_turbo"
    by (simp add: analyze_hi select_model_def select_balanced_def)
  have c: "choose_model misconfigured_router (analyze (env_encode example_env)
             (extract_query [user_message ''hi''])) ''auto'' = Inr gpt_3_5_turbo"
    using s
    by (simp add: choose_model_def extract_hi example_env_def misconfigured_router_def
        example_router_def)
  have call: "call_model_api misconfigured_router example_env gpt_3_5_turbo msgs = Inr ''Bonjour!''"
    for msgs
    by (simp add: call_model_api_def call_primary_def call_openai_api_def key_missing_def
      misconfigured_router_def example_router_def example_env_def example_invoke_def
      gpt_3_5_turbo_def)
  have f: "fst (finish_request misconfigured_router example_clock k
              (analyze example_encode ''hi'') gpt_3_5_turbo ''Bonjour!'') =
     \<lparr> content = ''Bonjour!'', model = ''gpt-3.5-turbo'', response_provider = ''openai'',
           input_tokens = 2, output_tokens = 2, cost = 4 / 1000000, savings = 176 / 1000000,
           latency = 2, response_quality_score = None \<rparr>" for k
    by (simp add: fst_finish_request analyze_hi calculate_cost_def gpt_3_5_turbo_def gpt_4_def
        example_clock_def)
  have e: "env_encode example_env = example_encode" by (simp add: example_env_def)
  have "fst (create misconfigured_router example_env example_clock [user_message ''hi''] ''auto'') =
       Inr \<lparr> content = ''Bonjour!'', model = ''gpt-3.5-turbo'', response_provider = ''openai'',
           input_tokens = 2, output_tokens = 2, cost = 4 / 1000000, savings = 176 / 1000000,
           latency = 2, response_quality_score = None \<rparr>"
    unfolding create_miss [OF miss] c
    by (simp add: call extract_hi e f)
  then show ?thesis by (simp add: misconfigured_router_def)
qed

section \<open>The query of a request\<close>

lemma extract_loop_none:
  "\<forall>p \<in> set ms. p ''role'' \<noteq> Some ''user'' \<Longrightarrow> extract_loop ms = []"
  by (induction ms) simp_all

lemma extract_loop_skip:
  "\<forall>p \<in> set ms. p ''role'' \<noteq> Some ''user'' \<Longrightarrow> extract_loop (ms @ rest) = extract_loop rest"
  by (induction ms) simp_all

lemma extract_query_last_user:
  assumes "m ''role'' = Some ''user''" and "\<forall>p \<in> set post. p ''role'' \<noteq> Some ''user''"
  shows "extract_query (pre @ m # post) = (case m ''content'' of None \<Rightarrow> [] | Some c \<Rightarrow> c)"
proof -
  have "extract_query (pre @ m # post) = extract_loop (rev post @ (m # rev pre))"
    by (simp add: extract_query_def)
  also have "\<dots> = extract_loop (m # rev pre)"
    using assms(2) by (intro extract_loop_skip) simp
  finally show ?thesis using assms(1) by simp
qed

lemma extract_query_no_user:
  assumes "\<forall>p \<in> set messages. p ''role'' \<noteq> Some ''user''"
  shows "extract_query messages = []"
  unfolding extract_query_def using assms by (intro extract_loop_none) simp

text \<open>
  C10. The query of a request is the content of the last message of role \<open>user\<close> (the empty
  string when that message has no content), and the empty string when no message has that
  role. A response computed under automatic selection carries the token count of the
  analysis of that query and the model selected for it. With no user message the empty
  string is analysed, and the request can only fail where the provider call fails: when
  the call answers, \<open>create\<close> returns a response.
\<close>

theorem create_analyzes_last_user_message:
  "(m ''role'' = Some ''user'' \<and> (\<forall>p \<in> set post. p ''role'' \<noteq> Some ''user'')
      \<longrightarrow> extract_query (pre @ m # post) = (case m ''content'' of None \<Rightarrow> [] | Some c \<Rightarrow> c))
   \<and> ((\<forall>p \<in> set messages. p ''role'' \<noteq> Some ''user'') \<longrightarrow> extract_query messages = [])
   \<and> (cache_get st (generate_cache_key (env_hash e) (extract_query messages)) (time_check clk) = None
        \<and> create st e clk messages ''auto'' = (Inr r, st')
      \<longrightarrow> input_tokens r = token_count (analyze (env_encode e) (extract_query messages))
          \<and> model r = name (select_model (analyze (env_encode e) (extract_query messages))
                              (strategy st) (custom_rules st)))
   \<and> ((\<forall>p \<in> set messages. p ''role'' \<noteq> Some ''user'')
        \<and> create st e clk messages ''auto'' = (Inl err, st')
      \<longrightarrow> call_model_api st e (select_model (analyze (env_encode e) []) (strategy st)
             (custom_rules st)) messages = Inl err)
   \<and> ((\<forall>p \<in> set messages. p ''role'' \<noteq> Some ''user'')
        \<and> call_model_api st e (select_model (analyze (env_encode e) []) (strategy st)
             (custom_rules st)) messages = Inr reply
      \<longrightarrow> (\<exists>r st'. create st e clk messages ''auto'' = (Inr r, st')))"
proof (intro conjI impI)
  assume "m ''role'' = Some ''user'' \<and> (\<forall>p \<in> set post. p ''role'' \<noteq> Some ''user'')"
  then show "extract_query (pre @ m # post) = (case m ''content'' of None \<Rightarrow> [] | Some c \<Rightarrow> c)"
    by (simp add: extract_query_last_user)
next
  assume "\<forall>p \<in> set messages. p ''role'' \<noteq> Some ''user''"
  then show "extract_query messages = []" by (rule extract_query_no_user)
next
  assume h: "cache_get st (generate_cache_key (env_hash e) (extract_query messages)) (time_check clk) = None
        \<and> create st e clk messages ''auto'' = (Inr r, st')"
  then obtain sel reply where
    sel: "choose_model st (analyze (env_encode e) (extract_query messages)) ''auto'' = Inr sel"
    and r: "r = fst (finish_request st clk
                       (generate_cache_key (env_hash e) (extract_query messages))
                       (analyze (env_encode e) (extract_query messages)) sel reply)"
    using create_miss_response [of st e messages clk "''auto''" r st'] by blast
  from sel have s: "sel = select_model (analyze (env_encode e) (extract_query messages))
                              (strategy st) (custom_rules st)"
    by (simp add: choose_model_def)
  show "input_tokens r = token_count (analyze (env_encode e) (extract_query messages))"
    by (simp add: r fst_finish_request)
  show "model r = name (select_model (analyze (env_encode e) (extract_query messages))
                              (strategy st) (custom_rules st))"
    by (simp add: r fst_finish_request s)
next
  assume h: "(\<forall>p \<in> set messages. p ''role'' \<noteq> Some ''user'')
        \<and> create st e clk messages ''auto'' = (Inl err, st')"
  then have q: "extract_query messages = []" by (simp add: extract_query_no_user)
  show "call_model_api st e (select_model (analyze (env_encode e) []) (strategy st)
             (custom_rules st)) messages = Inl err"
  proof (cases "cache_get st (generate_cache_key (env_hash e) (extract_query messages)) (time_check clk)")
    case None
    from h show ?thesis
      unfolding create_miss [OF None]
      by (auto simp: choose_model_def q split: sum.splits)
  next
    case (Some cached)
    from h show ?thesis unfolding create_hit [OF Some] by simp
  qed
next
  assume h: "(\<forall>p \<in> set messages. p ''role'' \<noteq> Some ''user'')
        \<and> call_model_api st e (select_model (analyze (env_encode e) []) (strategy st)
             (custom_rules st)) messages = Inr reply"
  then have q: "extract_query messages = []" by (simp add: extract_query_no_user)
  show "\<exists>r st'. create st e clk messages ''auto'' = (Inr r, st')"
  proof (cases "cache_get st (generate_cache_key (env_hash e) (extract_query messages)) (time_check clk)")
    case None
    from h show ?thesis
      unfolding create_miss [OF None]
      by (simp add: choose_model_def q)
  next
    case (Some cached)
    show ?thesis unfolding create_hit [OF Some] by simp
  qed
qed

lemma analyze_empty:
  "analyze example_encode [] =
     \<lparr> token_count = 0, vocabulary_complexity = 0, task_type = ''general'',
       estimated_output_tokens = 0, required_capabilities = [],
       complexity_score = 2 / 10 \<rparr>"
proof -
  have l: "lower [] = []" by (simp add: lower_def)
  have t: "detect_task_type [] = ''general''"
    unfolding detect_task_type_def l
    by (simp add: task_patterns_def re_search_def)
  have c: "detect_required_capabilities [] ''general'' = []"
    unfolding detect_required_capabilities_def l
    by (simp add: re_search_def)
  show ?thesis
    by (simp add: analyze_def Let_def t c example_encode_def estimate_output_tokens_def
        multipliers_def py_int_def calculate_complexity_score_def task_scores_def)
qed

text \<open>
  In a conversation of four messages the query is the content of the third, the last of
  role \<open>user\<close>. A request of one system message is analysed as the empty string and is
  answered by \<open>claude-3-haiku\<close> with no input tokens.
\<close>

theorem create_analyzes_last_user_message_witness:
  "extract_query ([user_message ''hello'', system_message ''be brief'']
      @ user_message ''hi'' # [system_message ''thanks'']) = ''hi''
   \<and> extract_query [system_message ''be brief''] = []
   \<and> (\<exists>r st'. create two_key_router example_env example_clock [system_message ''be brief''] ''auto''
          = (Inr r, st') \<and> input_tokens r = 0 \<and> model r = ''claude-3-haiku'')"
proof -
  let ?msgs = "[system_message ''be brief'']"
  have u: "user_message ''hi'' ''role'' = Some ''user''" by (simp add: user_message_def)
  have c: "user_message ''hi'' ''content'' = Some ''hi''" by (simp add: user_message_def)
  have p: "\<forall>p \<in> set [system_message ''thanks'']. p ''role'' \<noteq> Some ''user''"
    by (simp add: system_message_def)
  have n: "\<forall>p \<in> set ?msgs. p ''role'' \<noteq> Some ''user''"
    by (simp add: system_message_def)
  have 1: "extract_query ([user_message ''hello'', system_message ''be brief'']
      @ user_message ''hi'' # [system_message ''thanks'']) = ''hi''"
    using create_analyzes_last_user_message [of "user_message ''hi''" "[system_message ''thanks'']"
        "[user_message ''hello'', system_message ''be brief'']"] u p
    by (simp add: c)
  note t = create_analyzes_last_user_message [of _ _ _ ?msgs two_key_router example_env
      example_clock]
  have 2: "extract_query ?msgs = []" using t n by blast
  have s: "select_model (analyze (env_encode example_env) []) (strategy two_key_router)
             (custom_rules two_key_router) = claude_3_haiku"
    by (simp add: example_env_def analyze_empty two_key_router_def example_router_def
        select_model_def select_balanced_def)
  have call: "call_model_api two_key_router example_env claude_3_haiku ?msgs = Inr ''Bonjour!''"
    by (simp add: call_model_api_def call_primary_def call_anthropic_api_def key_missing_def
        two_key_router_def example_router_def example_env_def example_invoke_def
        claude_3_haiku_def)
  from t n call obtain r st' where
    r: "create two_key_router example_env example_clock ?msgs ''auto'' = (Inr r, st')"
    unfolding s by blast
  have miss: "cache_get two_key_router (generate_cache_key (env_hash example_env)
      (extract_query ?msgs)) (time_check example_clock) = None"
    unfolding two_key_router_def by (rule example_miss_any)
  from t miss r have "input_tokens r = token_count (analyze (env_encode example_env) (extract_query ?msgs))"
    and "model r = name (select_model (analyze (env_encode example_env) (extract_query ?msgs))
                              (strategy two_key_router) (custom_rules two_key_router))"
    by blast+
  then have "input_tokens r = 0" and "model r = ''claude-3-haiku''"
    unfolding 2 s by (simp_all add: example_env_def analyze_empty model_names)
  then show ?thesis using 1 2 r by blast
qed

section \<open>The response cache\<close>

lemma cache_get_put:
  "cache_get (cache_put st k r t) k now = (if now - t < of_int (cache_ttl st) then Some r else None)"
  by (simp add: cache_get_def cache_put_def)

lemma snd_finish_request:
  "\<exists>st1. cache_ttl st1 = cache_ttl st
     \<and> snd (finish_request st clk k c m reply)
         = cache_put st1 k (fst (finish_request st clk k c m reply)) (time_store clk)"
  by (rule exI [of _ "st \<lparr> tracker := track_request (tracker st) (now_track clk)
                  (name m) (provider_value (provider m)) (token_count c)
                  (int (length reply) div 4)
                  (calculate_cost m (token_count c) (int (length reply) div 4))
                  (max 0 (calculate_cost gpt_4 (token_count c) (int (length reply) div 4)
                         - calculate_cost m (token_count c) (int (length reply) div 4)))
                  (time_end clk - time_start clk) None \<rparr>"])
     (simp add: finish_request_def Let_def)

text \<open>After a computed response, the cache holds that response under the key of its query.\<close>

lemma create_miss_caches:
  assumes miss: "cache_get st (generate_cache_key (env_hash e) (extract_query messages))
                   (time_check clk) = None"
    and res: "create st e clk messages model_arg = (Inr r, st')"
  shows "cache_get st' (generate_cache_key (env_hash e) (extract_query messages)) now
           = (if now - time_store clk < of_int (cache_ttl st) then Some r else None)"
proof -
  from create_miss_response [OF miss res] obtain m reply where
    r: "r = fst (finish_request st clk (generate_cache_key (env_hash e) (extract_query messages))
                   (analyze (env_encode e) (extract_query messages)) m reply)"
    and st': "st' = snd (finish_request st clk (generate_cache_key (env_hash e) (extract_query messages))
                   (analyze (env_encode e) (extract_query messages)) m reply)"
    by blast
  from snd_finish_request [of st clk "generate_cache_key (env_hash e) (extract_query messages)"
      "analyze (env_encode e) (extract_query messages)" m reply]
  obtain st1 where "cache_ttl st1 = cache_ttl st"
    and "st' = cache_put st1 (generate_cache_key (env_hash e) (extract_query messages)) r (time_store clk)"
    unfolding r st' by blast
  then show ?thesis by (simp add: cache_get_put)
qed

text \<open>
  C6. A lookup right after a write of \<open>r\<close> under the key of \<open>q\<close>, less than the TTL after
  the write, returns \<open>r\<close>. A lookup misses exactly when the key is absent or the entry is
  at least as old as the TTL. A request that hits returns the cached response and leaves
  the router, the stored timestamp included, as it was. So a request computed and cached
  by \<open>create\<close> is served again from the cache by a later \<open>create\<close> for the same messages
  within the TTL of the write, and looked up as a miss from the TTL on.
\<close>

theorem cache_round_trip:
  "(now - t < of_int (cache_ttl st)
      \<longrightarrow> cache_get (cache_put st (generate_cache_key h q) r t) (generate_cache_key h q) now = Some r)
   \<and> ((cache_get st k now = None)
        = (case cache st k of None \<Rightarrow> True
           | Some entry \<Rightarrow> now - entry_timestamp entry \<ge> of_int (cache_ttl st)))
   \<and> (cache_get st (generate_cache_key (env_hash e) (extract_query messages)) (time_check clk) = Some r
      \<longrightarrow> create st e clk messages model_arg = (Inr r, st))
   \<and> (cache_get st (generate_cache_key (env_hash e) (extract_query messages)) (time_check clk) = None
        \<and> create st e clk messages model_arg = (Inr r, st')
        \<and> time_check clk' - time_store clk < of_int (cache_ttl st)
      \<longrightarrow> create st' e clk' messages model_arg' = (Inr r, st'))
   \<and> (cache_get st (generate_cache_key (env_hash e) (extract_query messages)) (time_check clk) = None
        \<and> create st e clk messages model_arg = (Inr r, st')
        \<and> time_check clk' - time_store clk \<ge> of_int (cache_ttl st)
      \<longrightarrow> cache_get st' (generate_cache_key (env_hash e) (extract_query messages)) (time_check clk')
            = None)"
proof (intro conjI impI)
  assume "now - t < of_int (cache_ttl st)"
  then show "cache_get (cache_put st (generate_cache_key h q) r t) (generate_cache_key h q) now = Some r"
    by (simp add: cache_get_put)
next
  show "(cache_get st k now = None)
        = (case cache st k of None \<Rightarrow> True
           | Some entry \<Rightarrow> now - entry_timestamp entry \<ge> of_int (cache_ttl st))"
    by (simp add: cache_get_def split: option.splits)
next
  assume "cache_get st (generate_cache_key (env_hash e) (extract_query messages)) (time_check clk) = Some r"
  then show "create st e clk messages model_arg = (Inr r, st)" by (rule create_hit)
next
  assume h: "cache_get st (generate_cache_key (env_hash e) (extract_query messages)) (time_check clk) = None
        \<and> create st e clk messages model_arg = (Inr r, st')
        \<and> time_check clk' - time_store clk < of_int (cache_ttl st)"
  then have "cache_get st' (generate_cache_key (env_hash e) (extract_query messages)) (time_check clk')
      = Some r"
    using create_miss_caches [of st e messages clk model_arg r st' "time_check clk'"] by simp
  then show "create st' e clk' messages model_arg' = (Inr r, st')" by (rule create_hit)
next
  assume h: "cache_get st (generate_cache_key (env_hash e) (extract_query messages)) (time_check clk) = None
        \<and> create st e clk messages model_arg = (Inr r, st')
        \<and> time_check clk' - time_store clk \<ge> of_int (cache_ttl st)"
  then show "cache_get st' (generate_cache_key (env_hash e) (extract_query messages)) (time_check clk')
            = None"
    using create_miss_caches [of st e messages clk model_arg r st' "time_check clk'"] by simp
qed

text \<open>
  The request \<open>hi\<close> is computed at the readings of \<open>example_clock\<close> and cached at time 104;
  the same request at time 200 is served from the cache, the router unchanged.
\<close>

theorem cache_round_trip_witness:
  "cache_get example_router (generate_cache_key (env_hash example_env)
      (extract_query [user_message ''hi''])) (time_check example_clock) = None
   \<and> fst (create example_router example_env example_clock [user_message ''hi''] ''auto'') =
       Inr \<lparr> content = ''Bonjour!'', model = ''gpt-3.5-turbo'', response_provider = ''openai'',
           input_tokens = 2, output_tokens = 2, cost = 4 / 1000000, savings = 176 / 1000000,
           latency = 2, response_quality_score = None \<rparr>
   \<and> time_check later_clock - time_store example_clock < of_int (cache_ttl example_router)
   \<and> create (snd (create example_router example_env example_clock [user_message ''hi''] ''auto''))
        example_env later_clock [user_message ''hi''] ''gpt-4'' =
       (Inr \<lparr> content = ''Bonjour!'', model = ''gpt-3.5-turbo'', response_provider = ''openai'',
           input_tokens = 2, output_tokens = 2, cost = 4 / 1000000, savings = 176 / 1000000,
           latency = 2, response_quality_score = None \<rparr>,
        snd (create example_router example_env example_clock [user_message ''hi''] ''auto''))"
proof -
  let ?r = "\<lparr> content = ''Bonjour!'', model = ''gpt-3.5-turbo'', response_provider = ''openai'',
           input_tokens = 2, output_tokens = 2, cost = 4 / 1000000, savings = 176 / 1000000,
           latency = 2, response_quality_score = None \<rparr>"
  let ?c = "create example_router example_env example_clock [user_message ''hi''] ''auto''"
  have res: "?c = (Inr ?r, snd ?c)"
    using example_create_hi by (simp add: prod_eq_iff)
  have ttl: "time_check later_clock - time_store example_clock < of_int (cache_ttl example_router)"
    by (simp add: later_clock_def example_clock_def example_router_def)
  from cache_round_trip [where st = example_router and e = example_env
      and messages = "[user_message ''hi'']" and clk = example_clock and r = ?r
      and model_arg = "''auto''" and st' = "snd ?c" and clk' = later_clock
      and model_arg' = "''gpt-4''"] example_miss res ttl
  have "create (snd ?c) example_env later_clock [user_message ''hi''] ''gpt-4'' = (Inr ?r, snd ?c)"
    by blast
  then show ?thesis using example_miss example_create_hi ttl by simp
qed

section \<open>Analytics\<close>












section \<open>The score of the example request\<close>

text \<open>
  The request \<open>hi\<close> under the one-token-per-character tokenizer has the score 0.4008, and
  the empty request the score 0.2.
\<close>

theorem complexity_score_in_unit_interval_witness:
  "0 \<le> complexity_score (analyze example_encode ''hi'')
   \<and> complexity_score (analyze example_encode ''hi'') \<le> 1
   \<and> complexity_score (analyze example_encode ''hi'') = 2004 / 5000
   \<and> complexity_score (analyze example_encode []) = 2 / 10"
  using complexity_score_in_unit_interval [of example_encode "''hi''"]
  by (simp add: analyze_hi analyze_empty)


end
